theory Spec2Isabelle
  imports Main "HOL-Library.Sublist"
begin

section \<open>Python strings\<close>

text \<open>
  A Python \<^verbatim>\<open>str\<close> is a sequence of Unicode code points. The message templates of
  \<^verbatim>\<open>main.py\<close> contain code points far above 255, so a string is modelled as the list
  of its code points; \<open>lit\<close> embeds an ASCII literal.
\<close>

type_synonym pystr = "nat list"

definition lit :: "string \<Rightarrow> pystr" where
  "lit s = map of_char s"

text \<open>The line feed \<^verbatim>\<open>\n\<close> of the f-strings.\<close>

definition nl :: pystr where
  "nl = [10]"

text \<open>The non-ASCII characters of the templates, by code point.\<close>

definition emoji_bell :: pystr where
  "emoji_bell = [0x1F514]"

definition emoji_bust :: pystr where
  "emoji_bust = [0x1F464]"

definition emoji_phone :: pystr where
  "emoji_phone = [0x1F4F1]"

definition emoji_globe :: pystr where
  "emoji_globe = [0x1F310]"

definition emoji_chart :: pystr where
  "emoji_chart = [0x1F4CA]"

definition emoji_phone_arrow :: pystr where
  "emoji_phone_arrow = [0x1F4F2]"

definition emoji_party :: pystr where
  "emoji_party = [0x1F389]"

definition emoji_parcel :: pystr where
  "emoji_parcel = [0x1F4E6]"

definition emoji_money_bag :: pystr where
  "emoji_money_bag = [0x1F4B0]"

definition emoji_gem :: pystr where
  "emoji_gem = [0x1F48E]"

definition emoji_card :: pystr where
  "emoji_card = [0x1F4B3]"

definition emoji_bank :: pystr where
  "emoji_bank = [0x1F3E6]"

definition emoji_warning :: pystr where
  "emoji_warning = [0x26A0, 0xFE0F]"

definition emoji_cart :: pystr where
  "emoji_cart = [0x1F6D2]"

definition rupee :: pystr where
  "rupee = [0x20B9]"

text \<open>
  \<^verbatim>\<open>{data.price}\<close> in an f-string formats an \<^verbatim>\<open>int\<close> as \<^verbatim>\<open>str(price)\<close>: the decimal
  digits, most significant first, after a minus sign when the number is negative.
\<close>

fun digits :: "nat \<Rightarrow> pystr" where
  "digits n = (if n < 10 then [48 + n] else digits (n div 10) @ [48 + n mod 10])"

definition str_int :: "int \<Rightarrow> pystr" where
  "str_int i = (if i < 0 then lit ''-'' @ digits (nat (- i)) else digits (nat i))"

text \<open>
  \<^verbatim>\<open>not x\<close> on a value that is \<^verbatim>\<open>None\<close> or a \<^verbatim>\<open>str\<close> (what \<^verbatim>\<open>os.getenv\<close> returns):
  true for \<^verbatim>\<open>None\<close> and for the empty string.
\<close>

fun falsy :: "pystr option \<Rightarrow> bool" where
  "falsy None = True"
| "falsy (Some s) = (s = [])"

text \<open>\<^verbatim>\<open>s or d\<close> on strings: \<open>d\<close> when \<open>s\<close> is empty, else \<open>s\<close>.\<close>

definition or_else :: "pystr \<Rightarrow> pystr \<Rightarrow> pystr" where
  "or_else s d = (if s = [] then d else s)"

section \<open>Configuration\<close>

text \<open>
  The module reads four environment variables when it is loaded and keeps them in four
  globals that nothing assigns afterwards. \<^verbatim>\<open>os.getenv\<close> gives \<^verbatim>\<open>None\<close> for a variable
  that is not set.
\<close>

record config =
  BOT_TOKEN_NEW_USER :: "pystr option"
  BOT_TOKEN_QR :: "pystr option"
  BOT_TOKEN_ORDER :: "pystr option"
  CHAT_ID :: "pystr option"

definition load_config :: "(string \<rightharpoonup> pystr) \<Rightarrow> config" where
  "load_config getenv =
     \<lparr>BOT_TOKEN_NEW_USER = getenv ''BOT_TOKEN_NEW_USER'',
      BOT_TOKEN_QR = getenv ''BOT_TOKEN_QR'',
      BOT_TOKEN_ORDER = getenv ''BOT_TOKEN_ORDER'',
      CHAT_ID = getenv ''CHAT_ID''\<rparr>"

section \<open>Request bodies\<close>

record NewUserNotification =
  username :: pystr
  mobile :: pystr
  ip :: pystr
  profile_status :: pystr

record QRPaymentStarted =
  username :: pystr
  mobile :: pystr
  package :: pystr
  amount :: pystr
  ip :: pystr
  is_special :: bool

record PaymentStarted =
  username :: pystr
  mobile :: pystr
  package :: pystr
  amount :: pystr
  ip :: pystr
  "method" :: pystr

record PaymentTimeEnded =
  username :: pystr
  mobile :: pystr
  package :: pystr
  amount :: pystr
  ip :: pystr
  "method" :: pystr

record OrderNotification =
  username :: pystr
  mobile :: pystr
  package :: pystr
  price :: int
  ip :: pystr

section \<open>Message templates\<close>

text \<open>The \<^verbatim>\<open>text\<close> each endpoint builds from its body, piece by piece as the f-strings do.\<close>

definition new_user_text :: "NewUserNotification \<Rightarrow> pystr" where
  "new_user_text data =
     emoji_bell @ lit '' New User Submitted'' @ nl @
     emoji_bust @ lit '' Username: '' @ NewUserNotification.username data @ nl @
     emoji_phone @ lit '' Mobile: '' @ NewUserNotification.mobile data @ nl @
     emoji_globe @ lit '' IP: '' @ NewUserNotification.ip data @ nl @
     emoji_chart @ lit '' Status: '' @ profile_status data"

definition special_text :: "QRPaymentStarted \<Rightarrow> pystr" where
  "special_text data = (if is_special data then lit ''YES'' else lit ''NO'')"

definition qr_payment_started_text :: "QRPaymentStarted \<Rightarrow> pystr" where
  "qr_payment_started_text data =
     emoji_phone_arrow @ lit '' <b>QR PAYMENT STARTED '' @ emoji_party @ lit ''</b>'' @ nl @
     emoji_bust @ lit '' Username: <code>'' @
       or_else (QRPaymentStarted.username data) (lit ''Unknown'') @ lit ''</code>'' @ nl @
     emoji_phone @ lit '' Mobile: <code>'' @
       or_else (QRPaymentStarted.mobile data) (lit ''Not Provided'') @ lit ''</code>'' @ nl @
     emoji_parcel @ lit '' Package: <code>'' @ QRPaymentStarted.package data @ lit ''</code>'' @ nl @
     emoji_money_bag @ lit '' Amount: <code>'' @ QRPaymentStarted.amount data @ lit ''</code>'' @ nl @
     emoji_globe @ lit '' IP: <code>'' @ QRPaymentStarted.ip data @ lit ''</code>'' @ nl @
     emoji_gem @ lit '' Special User: <b>'' @ special_text data @ lit ''</b>''"

definition payment_started_text :: "PaymentStarted \<Rightarrow> pystr" where
  "payment_started_text data =
     emoji_card @ lit '' <b>New UPI PAYMENT STARTED '' @ emoji_party @ lit ''</b>'' @ nl @ nl @
     emoji_bust @ lit '' Username: <code>'' @ PaymentStarted.username data @ lit ''</code>'' @ nl @
     emoji_phone @ lit '' Mobile: <code>'' @
       or_else (PaymentStarted.mobile data) (lit ''Not Provided'') @ lit ''</code>'' @ nl @
     emoji_parcel @ lit '' Package: <code>'' @ PaymentStarted.package data @ lit ''</code>'' @ nl @
     emoji_money_bag @ lit '' Amount: <code>'' @ rupee @ PaymentStarted.amount data @
       lit ''</code>'' @ nl @
     emoji_bank @ lit '' Payment Method: <b>'' @ PaymentStarted.method data @ lit ''</b>'' @ nl @
     emoji_globe @ lit '' IP: <code>'' @ PaymentStarted.ip data @ lit ''</code>''"

definition payment_time_ended_text :: "PaymentTimeEnded \<Rightarrow> pystr" where
  "payment_time_ended_text data =
     emoji_warning @ lit '' <b>PAYMENT TIME ENDED</b>'' @ nl @ nl @
     emoji_bust @ lit '' Username: <code>'' @ PaymentTimeEnded.username data @ lit ''</code>'' @ nl @
     emoji_phone @ lit '' Mobile: <code>'' @
       or_else (PaymentTimeEnded.mobile data) (lit ''Not Provided'') @ lit ''</code>'' @ nl @
     emoji_parcel @ lit '' Package: <code>'' @ PaymentTimeEnded.package data @ lit ''</code>'' @ nl @
     emoji_money_bag @ lit '' Amount: <code>'' @ rupee @ PaymentTimeEnded.amount data @
       lit ''</code>'' @ nl @
     emoji_bank @ lit '' Payment Method: <b>'' @ PaymentTimeEnded.method data @ lit ''</b>'' @ nl @
     emoji_globe @ lit '' IP: <code>'' @ PaymentTimeEnded.ip data @ lit ''</code>''"

definition order_text :: "OrderNotification \<Rightarrow> pystr" where
  "order_text data =
     emoji_cart @ lit '' <b>New Purchase Request</b>'' @ nl @ nl @
     emoji_bust @ lit '' Username: <code>'' @ OrderNotification.username data @ lit ''</code>'' @ nl @
     emoji_phone @ lit '' Mobile: <code>'' @
       or_else (OrderNotification.mobile data) (lit ''Not Provided'') @ lit ''</code>'' @ nl @
     emoji_parcel @ lit '' Package: '' @ OrderNotification.package data @ nl @
     emoji_money_bag @ lit '' Amount: '' @ rupee @ str_int (price data) @ nl @
     emoji_globe @ lit '' IP: '' @ OrderNotification.ip data"

section \<open>The notifier\<close>

text \<open>
  The outer world is a parameter: \<open>post url payload\<close> is what \<^verbatim>\<open>client.post\<close> does with
  the request. It either raises (the text of the exception is kept) or gives a response,
  of which the helper reads the status code, the body text, and what \<^verbatim>\<open>resp.json()\<close>
  makes of the body: the decoded value, or the text of the decoding error it raises.
  Upstream JSON values are left abstract (\<open>'j\<close>).
\<close>

datatype 'j post_result =
  Response int pystr "pystr + 'j"
| Raised pystr

type_synonym outbound = "pystr \<times> (string \<times> pystr) list"

type_synonym 'j transport = "pystr \<Rightarrow> (string \<times> pystr) list \<Rightarrow> 'j post_result"

text \<open>
  Modelled from the spec: the HTTP client library (httpx) is not part of the repository.
  Its \<^verbatim>\<open>resp.raise_for_status()\<close> raises \<^verbatim>\<open>HTTPStatusError\<close> unless the status code is
  one of 200..299; the spec speaks of "a non-2xx status" in the same sense.
\<close>

definition is_success :: "int \<Rightarrow> bool" where
  "is_success sc = (200 \<le> sc \<and> sc \<le> 299)"

datatype HTTPException = HTTPException (status: nat) (detail: pystr)

text \<open>
  \<open>send_telegram\<close> returns what the coroutine returns or raises, together with the list
  of outbound requests it made.
\<close>

definition send_telegram ::
  "'j transport \<Rightarrow> pystr option \<Rightarrow> pystr option \<Rightarrow> pystr \<Rightarrow> pystr
     \<Rightarrow> (HTTPException + 'j) \<times> outbound list" where
  "send_telegram post bot_token chat_id text' parse_mode =
     (if falsy bot_token \<or> falsy chat_id
      then (Inl (HTTPException 500 (lit ''Missing Telegram credentials'')), [])
      else
        let url = lit ''https://api.telegram.org/bot'' @ the bot_token @ lit ''/sendMessage'';
            payload = [(''chat_id'', the chat_id), (''text'', text'), (''parse_mode'', parse_mode)]
        in (case post url payload of
              Raised e \<Rightarrow> Inl (HTTPException 500 (lit ''Unexpected error: '' @ e))
            | Response sc body js \<Rightarrow>
                if is_success sc
                then (case js of
                        Inr result \<Rightarrow> Inr result
                      | Inl e \<Rightarrow> Inl (HTTPException 500 (lit ''Unexpected error: '' @ e)))
                else Inl (HTTPException 502 (lit ''Telegram API error: '' @ body)),
            [(url, payload)]))"

section \<open>Endpoints\<close>

text \<open>
  Each notify endpoint builds its text, calls \<open>send_telegram\<close> with one of the
  configured tokens, and wraps the result. The arguments of that call are kept as a
  record so that they can be compared between endpoints; \<open>relay\<close> is the call itself and
  the \<^verbatim>\<open>return {"success": True, "telegram_response": result}\<close> that follows it in every
  handler. The new-user handler leaves \<^verbatim>\<open>parse_mode\<close> out and gets the default of
  \<open>send_telegram\<close>, which is \<^verbatim>\<open>HTML\<close> as well.
\<close>

record notifier_call =
  bot_token :: "pystr option"
  chat_id :: "pystr option"
  message :: pystr
  parse_mode :: pystr

datatype 'j val = VBool bool | VStr pystr | VJson 'j | VErrors "(string \<times> string) list"

type_synonym 'j dict = "(string \<times> 'j val) list"

definition relay :: "'j transport \<Rightarrow> notifier_call \<Rightarrow> (HTTPException + 'j dict) \<times> outbound list" where
  "relay post c =
     (case send_telegram post (bot_token c) (chat_id c) (message c) (parse_mode c) of
        (Inl e, sent) \<Rightarrow> (Inl e, sent)
      | (Inr result, sent) \<Rightarrow>
          (Inr [(''success'', VBool True), (''telegram_response'', VJson result)], sent))"

definition health_check :: "'j dict" where
  "health_check = [(''status'', VStr (lit ''ok'')), (''service'', VStr (lit ''Telegram Notifier''))]"

definition new_user_call :: "config \<Rightarrow> NewUserNotification \<Rightarrow> notifier_call" where
  "new_user_call cfg data =
     \<lparr>bot_token = BOT_TOKEN_NEW_USER cfg, chat_id = CHAT_ID cfg,
      message = new_user_text data, parse_mode = lit ''HTML''\<rparr>"

definition qr_payment_started_call :: "config \<Rightarrow> QRPaymentStarted \<Rightarrow> notifier_call" where
  "qr_payment_started_call cfg data =
     \<lparr>bot_token = BOT_TOKEN_QR cfg, chat_id = CHAT_ID cfg,
      message = qr_payment_started_text data, parse_mode = lit ''HTML''\<rparr>"

definition payment_started_call :: "config \<Rightarrow> PaymentStarted \<Rightarrow> notifier_call" where
  "payment_started_call cfg data =
     \<lparr>bot_token = BOT_TOKEN_QR cfg, chat_id = CHAT_ID cfg,
      message = payment_started_text data, parse_mode = lit ''HTML''\<rparr>"

definition payment_time_ended_call :: "config \<Rightarrow> PaymentTimeEnded \<Rightarrow> notifier_call" where
  "payment_time_ended_call cfg data =
     \<lparr>bot_token = BOT_TOKEN_QR cfg, chat_id = CHAT_ID cfg,
      message = payment_time_ended_text data, parse_mode = lit ''HTML''\<rparr>"

definition order_call :: "config \<Rightarrow> OrderNotification \<Rightarrow> notifier_call" where
  "order_call cfg data =
     \<lparr>bot_token = BOT_TOKEN_ORDER cfg, chat_id = CHAT_ID cfg,
      message = order_text data, parse_mode = lit ''HTML''\<rparr>"

definition notify_new_user ::
  "config \<Rightarrow> 'j transport \<Rightarrow> NewUserNotification \<Rightarrow> (HTTPException + 'j dict) \<times> outbound list" where
  "notify_new_user cfg post data = relay post (new_user_call cfg data)"

definition notify_qr_payment_started ::
  "config \<Rightarrow> 'j transport \<Rightarrow> QRPaymentStarted \<Rightarrow> (HTTPException + 'j dict) \<times> outbound list" where
  "notify_qr_payment_started cfg post data = relay post (qr_payment_started_call cfg data)"

definition notify_payment_started ::
  "config \<Rightarrow> 'j transport \<Rightarrow> PaymentStarted \<Rightarrow> (HTTPException + 'j dict) \<times> outbound list" where
  "notify_payment_started cfg post data = relay post (payment_started_call cfg data)"

definition notify_payment_time_ended ::
  "config \<Rightarrow> 'j transport \<Rightarrow> PaymentTimeEnded \<Rightarrow> (HTTPException + 'j dict) \<times> outbound list" where
  "notify_payment_time_ended cfg post data = relay post (payment_time_ended_call cfg data)"

definition notify_order ::
  "config \<Rightarrow> 'j transport \<Rightarrow> OrderNotification \<Rightarrow> (HTTPException + 'j dict) \<times> outbound list" where
  "notify_order cfg post data = relay post (order_call cfg data)"

section \<open>Routing and validation\<close>

text \<open>
  A JSON request body is an object: a finite map from member names to values. Only the
  kinds of value the five bodies are made of are told apart.
\<close>

datatype jvalue = JString pystr | JInteger int | JBoolean bool | JOther

type_synonym jobject = "string \<rightharpoonup> jvalue"

text \<open>
  Modelled from the spec: the conversion rules of the validation library (pydantic), which
  is not part of the repository. The spec calls the validation structural, "presence and
  primitive type": a member passes when it is present and of the JSON type of its field.
  That every field is required is in the source: no field of the five classes has a
  default. The library reports one error per offending field.
\<close>

fun str_field :: "jobject \<Rightarrow> string \<Rightarrow> (string \<times> string) list + pystr" where
  "str_field body k =
     (case body k of
        None \<Rightarrow> Inl [(k, ''missing'')]
      | Some (JString s) \<Rightarrow> Inr s
      | Some _ \<Rightarrow> Inl [(k, ''string_type'')])"

fun int_field :: "jobject \<Rightarrow> string \<Rightarrow> (string \<times> string) list + int" where
  "int_field body k =
     (case body k of
        None \<Rightarrow> Inl [(k, ''missing'')]
      | Some (JInteger i) \<Rightarrow> Inr i
      | Some _ \<Rightarrow> Inl [(k, ''int_type'')])"

fun bool_field :: "jobject \<Rightarrow> string \<Rightarrow> (string \<times> string) list + bool" where
  "bool_field body k =
     (case body k of
        None \<Rightarrow> Inl [(k, ''missing'')]
      | Some (JBoolean b) \<Rightarrow> Inr b
      | Some _ \<Rightarrow> Inl [(k, ''bool_type'')])"

fun errs :: "(string \<times> string) list + 'a \<Rightarrow> (string \<times> string) list" where
  "errs (Inl es) = es"
| "errs (Inr _) = []"

definition validate_NewUserNotification ::
  "jobject \<Rightarrow> (string \<times> string) list + NewUserNotification" where
  "validate_NewUserNotification body =
     (case (str_field body ''username'', str_field body ''mobile'', str_field body ''ip'',
            str_field body ''profile_status'') of
        (Inr u, Inr m, Inr i, Inr s) \<Rightarrow>
          Inr \<lparr>NewUserNotification.username = u, mobile = m, ip = i, profile_status = s\<rparr>
      | (u, m, i, s) \<Rightarrow> Inl (errs u @ errs m @ errs i @ errs s))"

definition validate_QRPaymentStarted ::
  "jobject \<Rightarrow> (string \<times> string) list + QRPaymentStarted" where
  "validate_QRPaymentStarted body =
     (case (str_field body ''username'', str_field body ''mobile'', str_field body ''package'',
            str_field body ''amount'', str_field body ''ip'', bool_field body ''is_special'') of
        (Inr u, Inr m, Inr p, Inr a, Inr i, Inr s) \<Rightarrow>
          Inr \<lparr>QRPaymentStarted.username = u, mobile = m, package = p, amount = a, ip = i,
               is_special = s\<rparr>
      | (u, m, p, a, i, s) \<Rightarrow> Inl (errs u @ errs m @ errs p @ errs a @ errs i @ errs s))"

definition validate_PaymentStarted ::
  "jobject \<Rightarrow> (string \<times> string) list + PaymentStarted" where
  "validate_PaymentStarted body =
     (case (str_field body ''username'', str_field body ''mobile'', str_field body ''package'',
            str_field body ''amount'', str_field body ''ip'', str_field body ''method'') of
        (Inr u, Inr m, Inr p, Inr a, Inr i, Inr t) \<Rightarrow>
          Inr \<lparr>PaymentStarted.username = u, mobile = m, package = p, amount = a, ip = i,
               method = t\<rparr>
      | (u, m, p, a, i, t) \<Rightarrow> Inl (errs u @ errs m @ errs p @ errs a @ errs i @ errs t))"

definition validate_PaymentTimeEnded ::
  "jobject \<Rightarrow> (string \<times> string) list + PaymentTimeEnded" where
  "validate_PaymentTimeEnded body =
     (case (str_field body ''username'', str_field body ''mobile'', str_field body ''package'',
            str_field body ''amount'', str_field body ''ip'', str_field body ''method'') of
        (Inr u, Inr m, Inr p, Inr a, Inr i, Inr t) \<Rightarrow>
          Inr \<lparr>PaymentTimeEnded.username = u, mobile = m, package = p, amount = a, ip = i,
               method = t\<rparr>
      | (u, m, p, a, i, t) \<Rightarrow> Inl (errs u @ errs m @ errs p @ errs a @ errs i @ errs t))"

definition validate_OrderNotification ::
  "jobject \<Rightarrow> (string \<times> string) list + OrderNotification" where
  "validate_OrderNotification body =
     (case (str_field body ''username'', str_field body ''mobile'', str_field body ''package'',
            int_field body ''price'', str_field body ''ip'') of
        (Inr u, Inr m, Inr p, Inr c, Inr i) \<Rightarrow>
          Inr \<lparr>OrderNotification.username = u, mobile = m, package = p, price = c, ip = i\<rparr>
      | (u, m, p, c, i) \<Rightarrow> Inl (errs u @ errs m @ errs p @ errs c @ errs i))"

text \<open>
  Modelled from the spec: the web framework (FastAPI) is not part of the repository. It
  turns what a handler returns into a 200 response with that JSON body, an
  \<open>HTTPException\<close> into a response with its status code and the body
  \<^verbatim>\<open>{"detail": ...}\<close>, and a body that fails validation into a 422 listing the errors,
  without calling the handler.
\<close>

record 'j http_response =
  status_code :: nat
  content :: "'j dict"

datatype request =
  GET_health
| POST_new_user jobject
| POST_qr_payment_started jobject
| POST_payment_started jobject
| POST_payment_time_ended jobject
| POST_order jobject

definition respond ::
  "(HTTPException + 'j dict) \<times> outbound list \<Rightarrow> 'j http_response \<times> outbound list" where
  "respond r =
     (case r of
        (Inl (HTTPException sc d), sent) \<Rightarrow>
          (\<lparr>status_code = sc, content = [(''detail'', VStr d)]\<rparr>, sent)
      | (Inr d, sent) \<Rightarrow> (\<lparr>status_code = 200, content = d\<rparr>, sent))"

definition with_body ::
  "(jobject \<Rightarrow> (string \<times> string) list + 'b)
     \<Rightarrow> ('b \<Rightarrow> (HTTPException + 'j dict) \<times> outbound list)
     \<Rightarrow> jobject \<Rightarrow> 'j http_response \<times> outbound list" where
  "with_body validate handler body =
     (case validate body of
        Inl es \<Rightarrow> (\<lparr>status_code = 422, content = [(''detail'', VErrors es)]\<rparr>, [])
      | Inr data \<Rightarrow> respond (handler data))"

fun app :: "config \<Rightarrow> 'j transport \<Rightarrow> request \<Rightarrow> 'j http_response \<times> outbound list" where
  "app cfg post GET_health = respond (Inr health_check, [])"
| "app cfg post (POST_new_user body) =
     with_body validate_NewUserNotification (notify_new_user cfg post) body"
| "app cfg post (POST_qr_payment_started body) =
     with_body validate_QRPaymentStarted (notify_qr_payment_started cfg post) body"
| "app cfg post (POST_payment_started body) =
     with_body validate_PaymentStarted (notify_payment_started cfg post) body"
| "app cfg post (POST_payment_time_ended body) =
     with_body validate_PaymentTimeEnded (notify_payment_time_ended cfg post) body"
| "app cfg post (POST_order body) =
     with_body validate_OrderNotification (notify_order cfg post) body"

section \<open>Reading a text\<close>

text \<open>
  The number of places at which \<open>p\<close> starts in \<open>s\<close>. For a pattern that cannot overlap
  itself, such as \<^verbatim>\<open>YES\<close> or \<^verbatim>\<open>NO\<close>, this is what \<^verbatim>\<open>s.count(p)\<close> gives; \<open>s\<close> contains \<open>p\<close>
  exactly once when it is 1.
\<close>

fun occurrences :: "pystr \<Rightarrow> pystr \<Rightarrow> nat" where
  "occurrences p [] = (if p = [] then 1 else 0)"
| "occurrences p (x # xs) = (if prefix p (x # xs) then 1 else 0) + occurrences p xs"

text \<open>The first line of a text, and what follows it from its line feed on.\<close>

definition first_line :: "pystr \<Rightarrow> pystr" where
  "first_line s = takeWhile (\<lambda>c. c \<noteq> 10) s"

definition after_first_line :: "pystr \<Rightarrow> pystr" where
  "after_first_line s = dropWhile (\<lambda>c. c \<noteq> 10) s"

text \<open>
  What \<^verbatim>\<open>{data.is_special}\<close> would put into an f-string, as the other fields are put:
  \<^verbatim>\<open>str(True)\<close> is \<^verbatim>\<open>True\<close> and \<^verbatim>\<open>str(False)\<close> is \<^verbatim>\<open>False\<close>.
\<close>

definition str_bool :: "bool \<Rightarrow> pystr" where
  "str_bool b = (if b then lit ''True'' else lit ''False'')"

section \<open>Sample inputs\<close>

text \<open>Concrete configurations, transports and bodies on which the theorems are exercised.\<close>

definition cfg_unset :: config where
  "cfg_unset =
     \<lparr>BOT_TOKEN_NEW_USER = None, BOT_TOKEN_QR = None, BOT_TOKEN_ORDER = None, CHAT_ID = None\<rparr>"

definition cfg_set :: config where
  "cfg_set =
     \<lparr>BOT_TOKEN_NEW_USER = Some (lit ''111:AAA''), BOT_TOKEN_QR = Some (lit ''222:BBB''),
      BOT_TOKEN_ORDER = Some (lit ''333:CCC''), CHAT_ID = Some (lit ''-1001'')\<rparr>"

definition post_not_found :: "nat transport" where
  "post_not_found url payload = Response 404 (lit ''Not Found'') (Inl (lit ''no JSON''))"

definition post_ok :: "nat transport" where
  "post_ok url payload = Response 200 (lit ''ok'') (Inr 7)"

definition new_user_example :: NewUserNotification where
  "new_user_example =
     \<lparr>NewUserNotification.username = lit ''alice'', mobile = [], ip = lit ''1.2.3.4'',
      profile_status = lit ''public''\<rparr>"

definition qr_example :: QRPaymentStarted where
  "qr_example =
     \<lparr>QRPaymentStarted.username = lit ''alice'', mobile = lit ''9876543210'',
      package = lit ''Gold'', amount = lit ''499'', ip = lit ''1.2.3.4'', is_special = True\<rparr>"

definition payment_started_example :: PaymentStarted where
  "payment_started_example =
     \<lparr>PaymentStarted.username = lit ''alice'', mobile = [], package = lit ''Gold'',
      amount = lit ''499'', ip = lit ''1.2.3.4'', method = lit ''GPay''\<rparr>"

definition payment_time_ended_example :: PaymentTimeEnded where
  "payment_time_ended_example =
     \<lparr>PaymentTimeEnded.username = lit ''alice'', mobile = [], package = lit ''Gold'',
      amount = lit ''499'', ip = lit ''1.2.3.4'', method = lit ''GPay''\<rparr>"

definition order_example :: OrderNotification where
  "order_example =
     \<lparr>OrderNotification.username = lit ''alice'', mobile = [], package = lit ''Gold'',
      price = 499, ip = lit ''1.2.3.4''\<rparr>"

definition qr_blank_example :: QRPaymentStarted where
  "qr_blank_example =
     \<lparr>QRPaymentStarted.username = [], mobile = [], package = lit ''Gold'',
      amount = lit ''499'', ip = lit ''1.2.3.4'', is_special = False\<rparr>"

definition qr_yes_example :: QRPaymentStarted where
  "qr_yes_example =
     \<lparr>QRPaymentStarted.username = lit ''YES'', mobile = lit ''9876543210'',
      package = lit ''Gold'', amount = lit ''499'', ip = lit ''1.2.3.4'', is_special = True\<rparr>"

definition qr_noah_example :: QRPaymentStarted where
  "qr_noah_example =
     \<lparr>QRPaymentStarted.username = lit ''NOAH'', mobile = lit ''9876543210'',
      package = lit ''Gold'', amount = lit ''499'', ip = lit ''1.2.3.4'', is_special = False\<rparr>"

definition order_without_mobile :: jobject where
  "order_without_mobile =
     [''username'' \<mapsto> JString (lit ''alice''), ''package'' \<mapsto> JString (lit ''Gold''),
      ''price'' \<mapsto> JInteger 499, ''ip'' \<mapsto> JString (lit ''1.2.3.4'')]"

section \<open>Basic facts\<close>

lemmas glyph_defs =
  nl_def emoji_bell_def emoji_bust_def emoji_phone_def emoji_globe_def emoji_chart_def
  emoji_phone_arrow_def emoji_party_def emoji_parcel_def emoji_money_bag_def emoji_gem_def
  emoji_card_def emoji_bank_def emoji_warning_def emoji_cart_def rupee_def

lemmas text_defs =
  new_user_text_def qr_payment_started_text_def payment_started_text_def
  payment_time_ended_text_def order_text_def

lemmas call_defs =
  new_user_call_def qr_payment_started_call_def payment_started_call_def
  payment_time_ended_call_def order_call_def

lemmas notify_defs =
  notify_new_user_def notify_qr_payment_started_def notify_payment_started_def
  notify_payment_time_ended_def notify_order_def

lemmas example_defs =
  cfg_unset_def cfg_set_def post_not_found_def post_ok_def new_user_example_def qr_example_def
  payment_started_example_def payment_time_ended_example_def order_example_def
  qr_blank_example_def qr_yes_example_def qr_noah_example_def order_without_mobile_def

declare digits.simps [simp del]

lemma sublist_same: "sublist x x"
  using sublist_append_rightI [of x "[]"] by simp

lemma sublist_skip: "sublist x b \<Longrightarrow> sublist x (a @ b)"
  by (metis sublist_append)

lemma sublist_skip_eq: "sublist x b \<Longrightarrow> sublist x (a @ b) = True"
  by (simp add: sublist_skip)

lemma sublist_or_else: "sublist x (or_else x d @ b)"
  by (simp add: or_else_def)

lemmas sublist_steps = sublist_append_rightI sublist_or_else sublist_same sublist_skip

text \<open>
  A character that is not in the pattern separates the text: no occurrence of the pattern
  runs across it.
\<close>

lemma prefix_before_sep:
  assumes "d \<notin> set p"
  shows "prefix p (a @ d # b) \<longleftrightarrow> prefix p a"
proof
  assume "prefix p (a @ d # b)"
  then have "prefix p a \<or> (\<exists>us. p = a @ us \<and> prefix us (d # b))"
    by (simp add: prefix_append)
  then show "prefix p a"
  proof
    assume "prefix p a"
    then show ?thesis .
  next
    assume "\<exists>us. p = a @ us \<and> prefix us (d # b)"
    then obtain us where split: "p = a @ us" and rest: "prefix us (d # b)"
      by blast
    show ?thesis
    proof (cases us)
      case Nil
      with split show ?thesis
        by simp
    next
      case (Cons u us')
      with rest have "u = d"
        by simp
      with Cons split assms show ?thesis
        by simp
    qed
  qed
next
  assume "prefix p a"
  then show "prefix p (a @ d # b)"
    by (rule prefix_prefix)
qed

lemma occurrences_sep:
  assumes "d \<notin> set p" and "p \<noteq> []"
  shows "occurrences p (a @ d # b) = occurrences p a + occurrences p b"
proof (induction a)
  case Nil
  from assms obtain c p' where "p = c # p'" "c \<noteq> d"
    by (cases p) auto
  then show ?case
    by simp
next
  case (Cons x a)
  have "prefix p (x # a @ d # b) \<longleftrightarrow> prefix p (x # a)"
    using prefix_before_sep [OF assms(1), of "x # a" b] by simp
  with Cons show ?case
    by simp
qed

lemma occurrences_none: "p \<noteq> [] \<Longrightarrow> occurrences p s = 0 \<longleftrightarrow> \<not> sublist p s"
  by (induction s) (auto simp: sublist_Cons_right)


section \<open>The notifier's three outcomes\<close>

lemma relay_missing:
  "falsy (bot_token c) \<or> falsy (chat_id c) \<Longrightarrow>
     respond (relay post c) =
       (\<lparr>status_code = 500,
         content = [(''detail'', VStr (lit ''Missing Telegram credentials''))]\<rparr>, [])"
  by (simp add: relay_def send_telegram_def respond_def)

text \<open>An outbound request in the log is the one built from the call's own arguments.\<close>

lemma relay_sent:
  "snd (relay post c) = [(url, payload)] \<Longrightarrow>
     \<not> falsy (bot_token c) \<and> \<not> falsy (chat_id c) \<and>
     url = lit ''https://api.telegram.org/bot'' @ the (bot_token c) @ lit ''/sendMessage'' \<and>
     payload = [(''chat_id'', the (chat_id c)), (''text'', message c), (''parse_mode'', parse_mode c)]"
  by (auto simp: relay_def send_telegram_def Let_def split: if_splits prod.splits sum.splits)

lemma relay_upstream_error:
  assumes "\<exists>url payload. snd (relay post c) = [(url, payload)]
             \<and> post url payload = Response sc body js"
    and "\<not> is_success sc"
  shows "fst (respond (relay post c)) =
           \<lparr>status_code = 502,
            content = [(''detail'', VStr (lit ''Telegram API error: '' @ body))]\<rparr>"
proof -
  from assms(1) obtain url payload where sent: "snd (relay post c) = [(url, payload)]"
    and reply: "post url payload = Response sc body js"
    by blast
  from relay_sent [OF sent] reply assms(2) show ?thesis
    by (simp add: relay_def send_telegram_def respond_def Let_def)
qed

lemma relay_success:
  assumes "\<exists>url payload. snd (relay post c) = [(url, payload)]
             \<and> post url payload = Response sc body (Inr result)"
    and "is_success sc"
  shows "fst (respond (relay post c)) =
           \<lparr>status_code = 200,
            content = [(''success'', VBool True), (''telegram_response'', VJson result)]\<rparr>"
proof -
  from assms(1) obtain url payload where sent: "snd (relay post c) = [(url, payload)]"
    and reply: "post url payload = Response sc body (Inr result)"
    by blast
  from relay_sent [OF sent] reply assms(2) show ?thesis
    by (simp add: relay_def send_telegram_def respond_def Let_def)
qed

text \<open>With both credentials set, exactly one request goes out.\<close>

lemma relay_one_request:
  "\<not> falsy (bot_token c) \<Longrightarrow> \<not> falsy (chat_id c) \<Longrightarrow>
     snd (relay post c) =
       [(lit ''https://api.telegram.org/bot'' @ the (bot_token c) @ lit ''/sendMessage'',
         [(''chat_id'', the (chat_id c)), (''text'', message c), (''parse_mode'', parse_mode c)])]"
  by (simp add: relay_def send_telegram_def Let_def split: prod.splits sum.splits)

text \<open>
  Claim C1. On every notify endpoint, when the endpoint's bot token or the chat id is
  unset or empty, the response is a 500 whose detail is the fixed text
  "Missing Telegram credentials", and the list of outbound requests is empty.
\<close>

theorem missing_credentials_refused:
  "(falsy (BOT_TOKEN_NEW_USER cfg) \<or> falsy (CHAT_ID cfg) \<longrightarrow>
      respond (notify_new_user cfg post d1) =
        (\<lparr>status_code = 500,
          content = [(''detail'', VStr (lit ''Missing Telegram credentials''))]\<rparr>, []))
   \<and> (falsy (BOT_TOKEN_QR cfg) \<or> falsy (CHAT_ID cfg) \<longrightarrow>
      respond (notify_qr_payment_started cfg post d2) =
        (\<lparr>status_code = 500,
          content = [(''detail'', VStr (lit ''Missing Telegram credentials''))]\<rparr>, [])
      \<and> respond (notify_payment_started cfg post d3) =
        (\<lparr>status_code = 500,
          content = [(''detail'', VStr (lit ''Missing Telegram credentials''))]\<rparr>, [])
      \<and> respond (notify_payment_time_ended cfg post d4) =
        (\<lparr>status_code = 500,
          content = [(''detail'', VStr (lit ''Missing Telegram credentials''))]\<rparr>, []))
   \<and> (falsy (BOT_TOKEN_ORDER cfg) \<or> falsy (CHAT_ID cfg) \<longrightarrow>
      respond (notify_order cfg post d5) =
        (\<lparr>status_code = 500,
          content = [(''detail'', VStr (lit ''Missing Telegram credentials''))]\<rparr>, []))"
  by (simp add: notify_defs call_defs relay_missing)

theorem missing_credentials_refused_witness:
  "(falsy (BOT_TOKEN_NEW_USER cfg_unset) \<or> falsy (CHAT_ID cfg_unset))
   \<and> (falsy (BOT_TOKEN_QR cfg_unset) \<or> falsy (CHAT_ID cfg_unset))
   \<and> (falsy (BOT_TOKEN_ORDER cfg_unset) \<or> falsy (CHAT_ID cfg_unset))
   \<and> respond (notify_new_user cfg_unset post_ok new_user_example) =
        (\<lparr>status_code = 500,
          content = [(''detail'', VStr (lit ''Missing Telegram credentials''))]\<rparr>, [])
   \<and> respond (notify_qr_payment_started cfg_unset post_ok qr_example) =
        (\<lparr>status_code = 500,
          content = [(''detail'', VStr (lit ''Missing Telegram credentials''))]\<rparr>, [])
   \<and> respond (notify_payment_started cfg_unset post_ok payment_started_example) =
        (\<lparr>status_code = 500,
          content = [(''detail'', VStr (lit ''Missing Telegram credentials''))]\<rparr>, [])
   \<and> respond (notify_payment_time_ended cfg_unset post_ok payment_time_ended_example) =
        (\<lparr>status_code = 500,
          content = [(''detail'', VStr (lit ''Missing Telegram credentials''))]\<rparr>, [])
   \<and> respond (notify_order cfg_unset post_ok order_example) =
        (\<lparr>status_code = 500,
          content = [(''detail'', VStr (lit ''Missing Telegram credentials''))]\<rparr>, [])"
proof -
  have unset: "falsy (BOT_TOKEN_NEW_USER cfg_unset)" "falsy (BOT_TOKEN_QR cfg_unset)"
    "falsy (BOT_TOKEN_ORDER cfg_unset)"
    by (simp_all add: cfg_unset_def)
  from unset
    missing_credentials_refused [of cfg_unset post_ok new_user_example qr_example
      payment_started_example payment_time_ended_example order_example]
  show ?thesis
    by blast
qed

text \<open>
  Claim C3. On every notify endpoint, when the outbound request was made and the
  external API answered it with a status outside 200..299, the response is a 502 whose
  detail is "Telegram API error: " followed by the upstream response text, so that the
  upstream text is a substring of the detail.
\<close>

theorem upstream_error_is_502:
  assumes "\<not> is_success sc"
  shows
  "((\<exists>url payload. snd (notify_new_user cfg post d1) = [(url, payload)]
        \<and> post url payload = Response sc body js) \<longrightarrow>
      fst (respond (notify_new_user cfg post d1)) =
        \<lparr>status_code = 502,
         content = [(''detail'', VStr (lit ''Telegram API error: '' @ body))]\<rparr>)
   \<and> ((\<exists>url payload. snd (notify_qr_payment_started cfg post d2) = [(url, payload)]
        \<and> post url payload = Response sc body js) \<longrightarrow>
      fst (respond (notify_qr_payment_started cfg post d2)) =
        \<lparr>status_code = 502,
         content = [(''detail'', VStr (lit ''Telegram API error: '' @ body))]\<rparr>)
   \<and> ((\<exists>url payload. snd (notify_payment_started cfg post d3) = [(url, payload)]
        \<and> post url payload = Response sc body js) \<longrightarrow>
      fst (respond (notify_payment_started cfg post d3)) =
        \<lparr>status_code = 502,
         content = [(''detail'', VStr (lit ''Telegram API error: '' @ body))]\<rparr>)
   \<and> ((\<exists>url payload. snd (notify_payment_time_ended cfg post d4) = [(url, payload)]
        \<and> post url payload = Response sc body js) \<longrightarrow>
      fst (respond (notify_payment_time_ended cfg post d4)) =
        \<lparr>status_code = 502,
         content = [(''detail'', VStr (lit ''Telegram API error: '' @ body))]\<rparr>)
   \<and> ((\<exists>url payload. snd (notify_order cfg post d5) = [(url, payload)]
        \<and> post url payload = Response sc body js) \<longrightarrow>
      fst (respond (notify_order cfg post d5)) =
        \<lparr>status_code = 502,
         content = [(''detail'', VStr (lit ''Telegram API error: '' @ body))]\<rparr>)
   \<and> sublist body (lit ''Telegram API error: '' @ body)"
  unfolding notify_defs using assms by (intro conjI impI relay_upstream_error) simp_all

theorem upstream_error_is_502_witness:
  "\<not> is_success 404
   \<and> (\<exists>url payload. snd (notify_new_user cfg_set post_not_found new_user_example) = [(url, payload)]
        \<and> post_not_found url payload = Response 404 (lit ''Not Found'') (Inl (lit ''no JSON'')))
   \<and> (\<exists>url payload. snd (notify_qr_payment_started cfg_set post_not_found qr_example) = [(url, payload)]
        \<and> post_not_found url payload = Response 404 (lit ''Not Found'') (Inl (lit ''no JSON'')))
   \<and> (\<exists>url payload. snd (notify_payment_started cfg_set post_not_found payment_started_example)
          = [(url, payload)]
        \<and> post_not_found url payload = Response 404 (lit ''Not Found'') (Inl (lit ''no JSON'')))
   \<and> (\<exists>url payload. snd (notify_payment_time_ended cfg_set post_not_found payment_time_ended_example)
          = [(url, payload)]
        \<and> post_not_found url payload = Response 404 (lit ''Not Found'') (Inl (lit ''no JSON'')))
   \<and> (\<exists>url payload. snd (notify_order cfg_set post_not_found order_example) = [(url, payload)]
        \<and> post_not_found url payload = Response 404 (lit ''Not Found'') (Inl (lit ''no JSON'')))
   \<and> fst (respond (notify_new_user cfg_set post_not_found new_user_example)) =
        \<lparr>status_code = 502,
         content = [(''detail'', VStr (lit ''Telegram API error: Not Found''))]\<rparr>
   \<and> fst (respond (notify_qr_payment_started cfg_set post_not_found qr_example)) =
        \<lparr>status_code = 502,
         content = [(''detail'', VStr (lit ''Telegram API error: Not Found''))]\<rparr>
   \<and> fst (respond (notify_payment_started cfg_set post_not_found payment_started_example)) =
        \<lparr>status_code = 502,
         content = [(''detail'', VStr (lit ''Telegram API error: Not Found''))]\<rparr>
   \<and> fst (respond (notify_payment_time_ended cfg_set post_not_found payment_time_ended_example)) =
        \<lparr>status_code = 502,
         content = [(''detail'', VStr (lit ''Telegram API error: Not Found''))]\<rparr>
   \<and> fst (respond (notify_order cfg_set post_not_found order_example)) =
        \<lparr>status_code = 502,
         content = [(''detail'', VStr (lit ''Telegram API error: Not Found''))]\<rparr>"
proof -
  have status: "\<not> is_success 404"
    by (simp add: is_success_def)
  have creds: "\<not> falsy (BOT_TOKEN_NEW_USER cfg_set)" "\<not> falsy (BOT_TOKEN_QR cfg_set)"
    "\<not> falsy (BOT_TOKEN_ORDER cfg_set)" "\<not> falsy (CHAT_ID cfg_set)"
    by (simp_all add: cfg_set_def lit_def)
  have sent:
    "\<exists>url payload. snd (notify_new_user cfg_set post_not_found new_user_example) = [(url, payload)]
        \<and> post_not_found url payload = Response 404 (lit ''Not Found'') (Inl (lit ''no JSON''))"
    "\<exists>url payload. snd (notify_qr_payment_started cfg_set post_not_found qr_example) = [(url, payload)]
        \<and> post_not_found url payload = Response 404 (lit ''Not Found'') (Inl (lit ''no JSON''))"
    "\<exists>url payload. snd (notify_payment_started cfg_set post_not_found payment_started_example)
          = [(url, payload)]
        \<and> post_not_found url payload = Response 404 (lit ''Not Found'') (Inl (lit ''no JSON''))"
    "\<exists>url payload. snd (notify_payment_time_ended cfg_set post_not_found payment_time_ended_example)
          = [(url, payload)]
        \<and> post_not_found url payload = Response 404 (lit ''Not Found'') (Inl (lit ''no JSON''))"
    "\<exists>url payload. snd (notify_order cfg_set post_not_found order_example) = [(url, payload)]
        \<and> post_not_found url payload = Response 404 (lit ''Not Found'') (Inl (lit ''no JSON''))"
    using creds by (simp_all add: notify_defs call_defs relay_one_request post_not_found_def)
  have glue: "lit ''Telegram API error: '' @ lit ''Not Found'' = lit ''Telegram API error: Not Found''"
    by (simp add: lit_def)
  from status sent glue
    upstream_error_is_502 [OF status, of cfg_set post_not_found new_user_example
      "lit ''Not Found''" "Inl (lit ''no JSON'')" qr_example payment_started_example
      payment_time_ended_example order_example]
  show ?thesis
    by simp
qed

text \<open>
  Claim C7. On every notify endpoint, when the outbound request was made, the external
  API answered it with a status in 200..299 and the body of the answer decodes as JSON,
  the response is a 200 whose body is the dictionary with the two entries
  \<^verbatim>\<open>success: true\<close> and \<^verbatim>\<open>telegram_response\<close>, the latter being the decoded upstream body.
\<close>

theorem success_wraps_upstream_json:
  assumes "is_success sc"
  shows
  "((\<exists>url payload. snd (notify_new_user cfg post d1) = [(url, payload)]
        \<and> post url payload = Response sc body (Inr result)) \<longrightarrow>
      fst (respond (notify_new_user cfg post d1)) =
        \<lparr>status_code = 200,
         content = [(''success'', VBool True), (''telegram_response'', VJson result)]\<rparr>)
   \<and> ((\<exists>url payload. snd (notify_qr_payment_started cfg post d2) = [(url, payload)]
        \<and> post url payload = Response sc body (Inr result)) \<longrightarrow>
      fst (respond (notify_qr_payment_started cfg post d2)) =
        \<lparr>status_code = 200,
         content = [(''success'', VBool True), (''telegram_response'', VJson result)]\<rparr>)
   \<and> ((\<exists>url payload. snd (notify_payment_started cfg post d3) = [(url, payload)]
        \<and> post url payload = Response sc body (Inr result)) \<longrightarrow>
      fst (respond (notify_payment_started cfg post d3)) =
        \<lparr>status_code = 200,
         content = [(''success'', VBool True), (''telegram_response'', VJson result)]\<rparr>)
   \<and> ((\<exists>url payload. snd (notify_payment_time_ended cfg post d4) = [(url, payload)]
        \<and> post url payload = Response sc body (Inr result)) \<longrightarrow>
      fst (respond (notify_payment_time_ended cfg post d4)) =
        \<lparr>status_code = 200,
         content = [(''success'', VBool True), (''telegram_response'', VJson result)]\<rparr>)
   \<and> ((\<exists>url payload. snd (notify_order cfg post d5) = [(url, payload)]
        \<and> post url payload = Response sc body (Inr result)) \<longrightarrow>
      fst (respond (notify_order cfg post d5)) =
        \<lparr>status_code = 200,
         content = [(''success'', VBool True), (''telegram_response'', VJson result)]\<rparr>)"
  unfolding notify_defs using assms by (intro conjI impI relay_success) simp_all

theorem success_wraps_upstream_json_witness:
  "is_success 200
   \<and> (\<exists>url payload. snd (notify_new_user cfg_set post_ok new_user_example) = [(url, payload)]
        \<and> post_ok url payload = Response 200 (lit ''ok'') (Inr 7))
   \<and> (\<exists>url payload. snd (notify_qr_payment_started cfg_set post_ok qr_example) = [(url, payload)]
        \<and> post_ok url payload = Response 200 (lit ''ok'') (Inr 7))
   \<and> (\<exists>url payload. snd (notify_payment_started cfg_set post_ok payment_started_example) = [(url, payload)]
        \<and> post_ok url payload = Response 200 (lit ''ok'') (Inr 7))
   \<and> (\<exists>url payload. snd (notify_payment_time_ended cfg_set post_ok payment_time_ended_example) = [(url, payload)]
        \<and> post_ok url payload = Response 200 (lit ''ok'') (Inr 7))
   \<and> (\<exists>url payload. snd (notify_order cfg_set post_ok order_example) = [(url, payload)]
        \<and> post_ok url payload = Response 200 (lit ''ok'') (Inr 7))
   \<and> fst (respond (notify_new_user cfg_set post_ok new_user_example)) =
        \<lparr>status_code = 200,
         content = [(''success'', VBool True), (''telegram_response'', VJson 7)]\<rparr>
   \<and> fst (respond (notify_qr_payment_started cfg_set post_ok qr_example)) =
        \<lparr>status_code = 200,
         content = [(''success'', VBool True), (''telegram_response'', VJson 7)]\<rparr>
   \<and> fst (respond (notify_payment_started cfg_set post_ok payment_started_example)) =
        \<lparr>status_code = 200,
         content = [(''success'', VBool True), (''telegram_response'', VJson 7)]\<rparr>
   \<and> fst (respond (notify_payment_time_ended cfg_set post_ok payment_time_ended_example)) =
        \<lparr>status_code = 200,
         content = [(''success'', VBool True), (''telegram_response'', VJson 7)]\<rparr>
   \<and> fst (respond (notify_order cfg_set post_ok order_example)) =
        \<lparr>status_code = 200,
         content = [(''success'', VBool True), (''telegram_response'', VJson 7)]\<rparr>"
proof -
  have status: "is_success 200"
    by (simp add: is_success_def)
  have creds: "\<not> falsy (BOT_TOKEN_NEW_USER cfg_set)" "\<not> falsy (BOT_TOKEN_QR cfg_set)"
    "\<not> falsy (BOT_TOKEN_ORDER cfg_set)" "\<not> falsy (CHAT_ID cfg_set)"
    by (simp_all add: cfg_set_def lit_def)
  have sent:
    "\<exists>url payload. snd (notify_new_user cfg_set post_ok new_user_example) = [(url, payload)]
        \<and> post_ok url payload = Response 200 (lit ''ok'') (Inr 7)"
    "\<exists>url payload. snd (notify_qr_payment_started cfg_set post_ok qr_example) = [(url, payload)]
        \<and> post_ok url payload = Response 200 (lit ''ok'') (Inr 7)"
    "\<exists>url payload. snd (notify_payment_started cfg_set post_ok payment_started_example) = [(url, payload)]
        \<and> post_ok url payload = Response 200 (lit ''ok'') (Inr 7)"
    "\<exists>url payload. snd (notify_payment_time_ended cfg_set post_ok payment_time_ended_example) = [(url, payload)]
        \<and> post_ok url payload = Response 200 (lit ''ok'') (Inr 7)"
    "\<exists>url payload. snd (notify_order cfg_set post_ok order_example) = [(url, payload)]
        \<and> post_ok url payload = Response 200 (lit ''ok'') (Inr 7)"
    using creds by (simp_all add: notify_defs call_defs relay_one_request post_ok_def)
  from status sent
    success_wraps_upstream_json [OF status, of cfg_set post_ok new_user_example
      "lit ''ok''" 7 qr_example payment_started_example payment_time_ended_example order_example]
  show ?thesis
    by simp
qed

text \<open>
  Claim C8. \<^verbatim>\<open>GET /health\<close> is answered with status 200 and the body
  \<^verbatim>\<open>{"status": "ok", "service": "Telegram Notifier"}\<close>, whatever the configuration and
  whatever the transport would do, and no outbound request is made.
\<close>

theorem health_is_fixed:
  "app cfg post GET_health =
     (\<lparr>status_code = 200,
       content = [(''status'', VStr (lit ''ok'')), (''service'', VStr (lit ''Telegram Notifier''))]\<rparr>,
      [])"
  by (simp add: respond_def health_check_def)

section \<open>The message texts\<close>

lemma new_user_fields:
  "sublist (NewUserNotification.username d) (new_user_text d)"
  "sublist (NewUserNotification.mobile d) (new_user_text d)"
  "sublist (NewUserNotification.ip d) (new_user_text d)"
  "sublist (profile_status d) (new_user_text d)"
  unfolding new_user_text_def by (intro sublist_steps)+

lemma qr_payment_started_fields:
  "sublist (QRPaymentStarted.username d) (qr_payment_started_text d)"
  "sublist (QRPaymentStarted.mobile d) (qr_payment_started_text d)"
  "sublist (QRPaymentStarted.package d) (qr_payment_started_text d)"
  "sublist (QRPaymentStarted.amount d) (qr_payment_started_text d)"
  "sublist (QRPaymentStarted.ip d) (qr_payment_started_text d)"
  "sublist (special_text d) (qr_payment_started_text d)"
  unfolding qr_payment_started_text_def by (intro sublist_steps)+

lemma payment_started_fields:
  "sublist (PaymentStarted.username d) (payment_started_text d)"
  "sublist (PaymentStarted.mobile d) (payment_started_text d)"
  "sublist (PaymentStarted.package d) (payment_started_text d)"
  "sublist (PaymentStarted.amount d) (payment_started_text d)"
  "sublist (PaymentStarted.ip d) (payment_started_text d)"
  "sublist (PaymentStarted.method d) (payment_started_text d)"
  unfolding payment_started_text_def by (intro sublist_steps)+

lemma payment_time_ended_fields:
  "sublist (PaymentTimeEnded.username d) (payment_time_ended_text d)"
  "sublist (PaymentTimeEnded.mobile d) (payment_time_ended_text d)"
  "sublist (PaymentTimeEnded.package d) (payment_time_ended_text d)"
  "sublist (PaymentTimeEnded.amount d) (payment_time_ended_text d)"
  "sublist (PaymentTimeEnded.ip d) (payment_time_ended_text d)"
  "sublist (PaymentTimeEnded.method d) (payment_time_ended_text d)"
  unfolding payment_time_ended_text_def by (intro sublist_steps)+

lemma order_fields:
  "sublist (OrderNotification.username d) (order_text d)"
  "sublist (OrderNotification.mobile d) (order_text d)"
  "sublist (OrderNotification.package d) (order_text d)"
  "sublist (str_int (price d)) (order_text d)"
  "sublist (OrderNotification.ip d) (order_text d)"
  unfolding order_text_def by (intro sublist_steps)+

text \<open>The placeholder slots of the four endpoints that have them.\<close>

lemma qr_mobile_fallback:
  "QRPaymentStarted.mobile d = [] \<Longrightarrow>
     sublist (emoji_phone @ lit '' Mobile: <code>Not Provided</code>'') (qr_payment_started_text d)"
  by (simp add: qr_payment_started_text_def or_else_def lit_def glyph_defs sublist_Cons_right
      sublist_skip_eq)

lemma qr_username_fallback:
  "QRPaymentStarted.username d = [] \<Longrightarrow>
     sublist (emoji_bust @ lit '' Username: <code>Unknown</code>'') (qr_payment_started_text d)"
  by (simp add: qr_payment_started_text_def or_else_def lit_def glyph_defs sublist_Cons_right
      sublist_skip_eq)

lemma payment_started_mobile_fallback:
  "PaymentStarted.mobile d = [] \<Longrightarrow>
     sublist (emoji_phone @ lit '' Mobile: <code>Not Provided</code>'') (payment_started_text d)"
  by (simp add: payment_started_text_def or_else_def lit_def glyph_defs sublist_Cons_right
      sublist_skip_eq)

lemma payment_time_ended_mobile_fallback:
  "PaymentTimeEnded.mobile d = [] \<Longrightarrow>
     sublist (emoji_phone @ lit '' Mobile: <code>Not Provided</code>'') (payment_time_ended_text d)"
  by (simp add: payment_time_ended_text_def or_else_def lit_def glyph_defs sublist_Cons_right
      sublist_skip_eq)

lemma order_mobile_fallback:
  "OrderNotification.mobile d = [] \<Longrightarrow>
     sublist (emoji_phone @ lit '' Mobile: <code>Not Provided</code>'') (order_text d)"
  by (simp add: order_text_def or_else_def lit_def glyph_defs sublist_Cons_right sublist_skip_eq)

text \<open>A body without a \<^verbatim>\<open>mobile\<close> member does not reach the handler.\<close>

lemma qr_payment_started_needs_mobile:
  "body ''mobile'' = None \<Longrightarrow>
     status_code (fst (app cfg post (POST_qr_payment_started body))) = 422
     \<and> snd (app cfg post (POST_qr_payment_started body)) = []"
  by (simp add: with_body_def validate_QRPaymentStarted_def split: sum.splits)

lemma payment_started_needs_mobile:
  "body ''mobile'' = None \<Longrightarrow>
     status_code (fst (app cfg post (POST_payment_started body))) = 422
     \<and> snd (app cfg post (POST_payment_started body)) = []"
  by (simp add: with_body_def validate_PaymentStarted_def split: sum.splits)

lemma payment_time_ended_needs_mobile:
  "body ''mobile'' = None \<Longrightarrow>
     status_code (fst (app cfg post (POST_payment_time_ended body))) = 422
     \<and> snd (app cfg post (POST_payment_time_ended body)) = []"
  by (simp add: with_body_def validate_PaymentTimeEnded_def split: sum.splits)

lemma order_needs_mobile:
  "body ''mobile'' = None \<Longrightarrow>
     status_code (fst (app cfg post (POST_order body))) = 422
     \<and> snd (app cfg post (POST_order body)) = []"
  by (simp add: with_body_def validate_OrderNotification_def split: sum.splits)

text \<open>Where the two labels occur in the QR text: once in the label slot, and in the fields.\<close>

lemma qr_yes_count:
  "occurrences (lit ''YES'') (qr_payment_started_text d) =
     (if is_special d then 1 else 0) +
     occurrences (lit ''YES'') (QRPaymentStarted.username d) +
     occurrences (lit ''YES'') (QRPaymentStarted.mobile d) +
     occurrences (lit ''YES'') (QRPaymentStarted.package d) +
     occurrences (lit ''YES'') (QRPaymentStarted.amount d) +
     occurrences (lit ''YES'') (QRPaymentStarted.ip d)"
  by (simp add: qr_payment_started_text_def special_text_def or_else_def lit_def glyph_defs
      occurrences_sep)

lemma qr_no_count:
  "occurrences (lit ''NO'') (qr_payment_started_text d) =
     (if is_special d then 0 else 1) +
     occurrences (lit ''NO'') (QRPaymentStarted.username d) +
     occurrences (lit ''NO'') (QRPaymentStarted.mobile d) +
     occurrences (lit ''NO'') (QRPaymentStarted.package d) +
     occurrences (lit ''NO'') (QRPaymentStarted.amount d) +
     occurrences (lit ''NO'') (QRPaymentStarted.ip d)"
  by (simp add: qr_payment_started_text_def special_text_def or_else_def lit_def glyph_defs
      occurrences_sep)

lemma absent_means_zero: "p \<noteq> [] \<Longrightarrow> \<not> sublist p s \<Longrightarrow> occurrences p s = 0"
  by (simp add: occurrences_none)

text \<open>
  The example of the spec: the order of \<^verbatim>\<open>alice\<close> with an empty \<^verbatim>\<open>mobile\<close>, package
  \<^verbatim>\<open>Gold\<close>, price 499.
\<close>

lemma order_example_text:
  "sublist (emoji_bust @ lit '' Username: <code>alice</code>'') (order_text order_example)"
  "sublist (emoji_phone @ lit '' Mobile: <code>Not Provided</code>'') (order_text order_example)"
  "sublist (emoji_money_bag @ lit '' Amount: '' @ rupee @ lit ''499'') (order_text order_example)"
  by (simp_all add: order_example_def order_text_def or_else_def str_int_def digits.simps
      lit_def glyph_defs sublist_Cons_right)

text \<open>
  Claim C2, as the code has it. On each of the five endpoints the text contains the
  value of every string field of the body as a substring, and on the order endpoint the
  decimal rendering of \<^verbatim>\<open>price\<close>. The boolean \<^verbatim>\<open>is_special\<close> of the QR body is not put into
  the text as a value: its slot holds the label \<^verbatim>\<open>YES\<close> or \<^verbatim>\<open>NO\<close>. No field is left
  without a slot.
\<close>

theorem fields_appear_in_text:
  "sublist (NewUserNotification.username d1) (new_user_text d1)
   \<and> sublist (NewUserNotification.mobile d1) (new_user_text d1)
   \<and> sublist (NewUserNotification.ip d1) (new_user_text d1)
   \<and> sublist (profile_status d1) (new_user_text d1)
   \<and> sublist (QRPaymentStarted.username d2) (qr_payment_started_text d2)
   \<and> sublist (QRPaymentStarted.mobile d2) (qr_payment_started_text d2)
   \<and> sublist (QRPaymentStarted.package d2) (qr_payment_started_text d2)
   \<and> sublist (QRPaymentStarted.amount d2) (qr_payment_started_text d2)
   \<and> sublist (QRPaymentStarted.ip d2) (qr_payment_started_text d2)
   \<and> sublist (if is_special d2 then lit ''YES'' else lit ''NO'') (qr_payment_started_text d2)
   \<and> sublist (PaymentStarted.username d3) (payment_started_text d3)
   \<and> sublist (PaymentStarted.mobile d3) (payment_started_text d3)
   \<and> sublist (PaymentStarted.package d3) (payment_started_text d3)
   \<and> sublist (PaymentStarted.amount d3) (payment_started_text d3)
   \<and> sublist (PaymentStarted.ip d3) (payment_started_text d3)
   \<and> sublist (PaymentStarted.method d3) (payment_started_text d3)
   \<and> sublist (PaymentTimeEnded.username d4) (payment_time_ended_text d4)
   \<and> sublist (PaymentTimeEnded.mobile d4) (payment_time_ended_text d4)
   \<and> sublist (PaymentTimeEnded.package d4) (payment_time_ended_text d4)
   \<and> sublist (PaymentTimeEnded.amount d4) (payment_time_ended_text d4)
   \<and> sublist (PaymentTimeEnded.ip d4) (payment_time_ended_text d4)
   \<and> sublist (PaymentTimeEnded.method d4) (payment_time_ended_text d4)
   \<and> sublist (OrderNotification.username d5) (order_text d5)
   \<and> sublist (OrderNotification.mobile d5) (order_text d5)
   \<and> sublist (OrderNotification.package d5) (order_text d5)
   \<and> sublist (str_int (price d5)) (order_text d5)
   \<and> sublist (OrderNotification.ip d5) (order_text d5)"
proof -
  have "sublist (if is_special d2 then lit ''YES'' else lit ''NO'') (qr_payment_started_text d2)"
    using qr_payment_started_fields(6) [of d2] by (simp add: special_text_def)
  then show ?thesis
    by (intro conjI new_user_fields qr_payment_started_fields payment_started_fields
        payment_time_ended_fields order_fields)
qed

text \<open>
  Claim C2 as stated fails on the QR endpoint: for a body whose \<^verbatim>\<open>is_special\<close> is true,
  the text contains the value of that field neither as Python writes it nor as JSON
  does.
\<close>

theorem is_special_value_not_in_text:
  "is_special qr_example
   \<and> \<not> sublist (str_bool (is_special qr_example)) (qr_payment_started_text qr_example)
   \<and> \<not> sublist (lit ''true'') (qr_payment_started_text qr_example)"
  by (simp add: qr_example_def qr_payment_started_text_def special_text_def str_bool_def
      or_else_def lit_def glyph_defs sublist_Cons_right)

text \<open>
  Claim C4, as the code has it. The configuration is three bot tokens and one chat id,
  read from the environment variables \<^verbatim>\<open>BOT_TOKEN_NEW_USER\<close>, \<^verbatim>\<open>BOT_TOKEN_QR\<close>,
  \<^verbatim>\<open>BOT_TOKEN_ORDER\<close> and \<^verbatim>\<open>CHAT_ID\<close>. The new-user endpoint calls the notifier with the
  first token, the order endpoint with the third, and the three endpoints
  qr-payment-started, payment-started and payment-time-ended all with the second; every
  endpoint passes the one chat id.
\<close>

theorem endpoint_token_routing:
  "load_config getenv =
     \<lparr>BOT_TOKEN_NEW_USER = getenv ''BOT_TOKEN_NEW_USER'', BOT_TOKEN_QR = getenv ''BOT_TOKEN_QR'',
      BOT_TOKEN_ORDER = getenv ''BOT_TOKEN_ORDER'', CHAT_ID = getenv ''CHAT_ID''\<rparr>
   \<and> map bot_token
        [new_user_call cfg d1, qr_payment_started_call cfg d2, payment_started_call cfg d3,
         payment_time_ended_call cfg d4, order_call cfg d5] =
       [BOT_TOKEN_NEW_USER cfg, BOT_TOKEN_QR cfg, BOT_TOKEN_QR cfg, BOT_TOKEN_QR cfg,
        BOT_TOKEN_ORDER cfg]
   \<and> map chat_id
        [new_user_call cfg d1, qr_payment_started_call cfg d2, payment_started_call cfg d3,
         payment_time_ended_call cfg d4, order_call cfg d5] =
       [CHAT_ID cfg, CHAT_ID cfg, CHAT_ID cfg, CHAT_ID cfg, CHAT_ID cfg]"
  by (simp add: load_config_def call_defs)

text \<open>
  Claim C4 as stated fails: under a configuration whose tokens are pairwise different,
  the five endpoints use three different tokens, not four, and three of them, not two,
  use the same one.
\<close>

theorem three_tokens_not_four:
  "card (set (map bot_token
      [new_user_call cfg_set new_user_example, qr_payment_started_call cfg_set qr_example,
       payment_started_call cfg_set payment_started_example,
       payment_time_ended_call cfg_set payment_time_ended_example,
       order_call cfg_set order_example])) = 3
   \<and> card (set (map bot_token
      [new_user_call cfg_set new_user_example, qr_payment_started_call cfg_set qr_example,
       payment_started_call cfg_set payment_started_example,
       payment_time_ended_call cfg_set payment_time_ended_example,
       order_call cfg_set order_example])) \<noteq> 4
   \<and> length (filter (\<lambda>c. bot_token c = BOT_TOKEN_QR cfg_set)
      [new_user_call cfg_set new_user_example, qr_payment_started_call cfg_set qr_example,
       payment_started_call cfg_set payment_started_example,
       payment_time_ended_call cfg_set payment_time_ended_example,
       order_call cfg_set order_example]) = 3"
  by (simp add: call_defs cfg_set_def lit_def)

text \<open>
  Claim C5, as the code has it. On the qr-payment-started, payment-started,
  payment-time-ended and order endpoints, a body whose \<^verbatim>\<open>mobile\<close> is the empty string
  gives a text in which the mobile slot reads \<^verbatim>\<open>Not Provided\<close>; on qr-payment-started an
  empty \<^verbatim>\<open>username\<close> gives a slot that reads \<^verbatim>\<open>Unknown\<close>. A body that omits \<^verbatim>\<open>mobile\<close> is
  rejected with status 422 and nothing is sent.
\<close>

theorem empty_mobile_placeholder:
  "(QRPaymentStarted.mobile d2 = [] \<longrightarrow> sublist (emoji_phone @ lit '' Mobile: <code>Not Provided</code>'') (qr_payment_started_text d2))
   \<and> (PaymentStarted.mobile d3 = [] \<longrightarrow> sublist (emoji_phone @ lit '' Mobile: <code>Not Provided</code>'') (payment_started_text d3))
   \<and> (PaymentTimeEnded.mobile d4 = [] \<longrightarrow> sublist (emoji_phone @ lit '' Mobile: <code>Not Provided</code>'') (payment_time_ended_text d4))
   \<and> (OrderNotification.mobile d5 = [] \<longrightarrow> sublist (emoji_phone @ lit '' Mobile: <code>Not Provided</code>'') (order_text d5))
   \<and> (QRPaymentStarted.username d2 = [] \<longrightarrow> sublist (emoji_bust @ lit '' Username: <code>Unknown</code>'') (qr_payment_started_text d2))
   \<and> (body ''mobile'' = None \<longrightarrow>
        status_code (fst (app cfg post (POST_qr_payment_started body))) = 422
        \<and> snd (app cfg post (POST_qr_payment_started body)) = []
        \<and> status_code (fst (app cfg post (POST_payment_started body))) = 422
        \<and> snd (app cfg post (POST_payment_started body)) = []
        \<and> status_code (fst (app cfg post (POST_payment_time_ended body))) = 422
        \<and> snd (app cfg post (POST_payment_time_ended body)) = []
        \<and> status_code (fst (app cfg post (POST_order body))) = 422
        \<and> snd (app cfg post (POST_order body)) = [])"
  using qr_mobile_fallback [of d2] payment_started_mobile_fallback [of d3]
    payment_time_ended_mobile_fallback [of d4] order_mobile_fallback [of d5]
    qr_username_fallback [of d2] qr_payment_started_needs_mobile [of body cfg post]
    payment_started_needs_mobile [of body cfg post]
    payment_time_ended_needs_mobile [of body cfg post] order_needs_mobile [of body cfg post]
  by blast

theorem empty_mobile_placeholder_witness:
  "QRPaymentStarted.mobile qr_blank_example = []
   \<and> PaymentStarted.mobile payment_started_example = []
   \<and> PaymentTimeEnded.mobile payment_time_ended_example = []
   \<and> OrderNotification.mobile order_example = []
   \<and> QRPaymentStarted.username qr_blank_example = []
   \<and> order_without_mobile ''mobile'' = None
   \<and> sublist (emoji_phone @ lit '' Mobile: <code>Not Provided</code>'') (qr_payment_started_text qr_blank_example)
   \<and> sublist (emoji_phone @ lit '' Mobile: <code>Not Provided</code>'') (payment_started_text payment_started_example)
   \<and> sublist (emoji_phone @ lit '' Mobile: <code>Not Provided</code>'') (payment_time_ended_text payment_time_ended_example)
   \<and> sublist (emoji_phone @ lit '' Mobile: <code>Not Provided</code>'') (order_text order_example)
   \<and> sublist (emoji_bust @ lit '' Username: <code>Unknown</code>'') (qr_payment_started_text qr_blank_example)
   \<and> status_code (fst (app cfg_set post_ok (POST_qr_payment_started order_without_mobile))) = 422
   \<and> snd (app cfg_set post_ok (POST_qr_payment_started order_without_mobile)) = []
   \<and> status_code (fst (app cfg_set post_ok (POST_payment_started order_without_mobile))) = 422
   \<and> snd (app cfg_set post_ok (POST_payment_started order_without_mobile)) = []
   \<and> status_code (fst (app cfg_set post_ok (POST_payment_time_ended order_without_mobile))) = 422
   \<and> snd (app cfg_set post_ok (POST_payment_time_ended order_without_mobile)) = []
   \<and> status_code (fst (app cfg_set post_ok (POST_order order_without_mobile))) = 422
   \<and> snd (app cfg_set post_ok (POST_order order_without_mobile)) = []"
proof -
  have empty: "QRPaymentStarted.mobile qr_blank_example = []"
    "PaymentStarted.mobile payment_started_example = []"
    "PaymentTimeEnded.mobile payment_time_ended_example = []"
    "OrderNotification.mobile order_example = []"
    "QRPaymentStarted.username qr_blank_example = []"
    "order_without_mobile ''mobile'' = None"
    by (simp_all add: example_defs)
  from empty
    empty_mobile_placeholder [of qr_blank_example payment_started_example
      payment_time_ended_example order_example order_without_mobile cfg_set post_ok]
  show ?thesis
    by blast
qed

text \<open>
  Claim C5 as stated fails where \<^verbatim>\<open>mobile\<close> is omitted: the order body of the spec's
  example without its \<^verbatim>\<open>mobile\<close> member is answered with a 422 that reports the missing
  field, and no text is sent, although both credentials are set and the transport
  would accept the message.
\<close>

theorem omitted_mobile_is_rejected:
  "order_without_mobile ''mobile'' = None
   \<and> app cfg_set post_ok (POST_order order_without_mobile) =
       (\<lparr>status_code = 422, content = [(''detail'', VErrors [(''mobile'', ''missing'')])]\<rparr>, [])"
  by (simp add: order_without_mobile_def with_body_def validate_OrderNotification_def)

text \<open>
  Claim C6, as the code has it. In the QR text the label slot holds \<^verbatim>\<open>YES\<close> when
  \<^verbatim>\<open>is_special\<close> is true and \<^verbatim>\<open>NO\<close> when it is false, and the template itself has no other
  \<^verbatim>\<open>YES\<close> or \<^verbatim>\<open>NO\<close>: the text contains the label exactly once when none of the five string
  fields contains it, and once more for every occurrence inside a field.
\<close>

theorem special_label_once:
  "(is_special d
      \<and> \<not> sublist (lit ''YES'') (QRPaymentStarted.username d)
      \<and> \<not> sublist (lit ''YES'') (QRPaymentStarted.mobile d)
      \<and> \<not> sublist (lit ''YES'') (QRPaymentStarted.package d)
      \<and> \<not> sublist (lit ''YES'') (QRPaymentStarted.amount d)
      \<and> \<not> sublist (lit ''YES'') (QRPaymentStarted.ip d) \<longrightarrow>
    occurrences (lit ''YES'') (qr_payment_started_text d) = 1)
   \<and> (\<not> is_special d
      \<and> \<not> sublist (lit ''NO'') (QRPaymentStarted.username d)
      \<and> \<not> sublist (lit ''NO'') (QRPaymentStarted.mobile d)
      \<and> \<not> sublist (lit ''NO'') (QRPaymentStarted.package d)
      \<and> \<not> sublist (lit ''NO'') (QRPaymentStarted.amount d)
      \<and> \<not> sublist (lit ''NO'') (QRPaymentStarted.ip d) \<longrightarrow>
    occurrences (lit ''NO'') (qr_payment_started_text d) = 1)
   \<and> occurrences (lit ''YES'') (qr_payment_started_text d) =
       (if is_special d then 1 else 0) +
       occurrences (lit ''YES'') (QRPaymentStarted.username d) +
       occurrences (lit ''YES'') (QRPaymentStarted.mobile d) +
       occurrences (lit ''YES'') (QRPaymentStarted.package d) +
       occurrences (lit ''YES'') (QRPaymentStarted.amount d) +
       occurrences (lit ''YES'') (QRPaymentStarted.ip d)
   \<and> occurrences (lit ''NO'') (qr_payment_started_text d) =
       (if is_special d then 0 else 1) +
       occurrences (lit ''NO'') (QRPaymentStarted.username d) +
       occurrences (lit ''NO'') (QRPaymentStarted.mobile d) +
       occurrences (lit ''NO'') (QRPaymentStarted.package d) +
       occurrences (lit ''NO'') (QRPaymentStarted.amount d) +
       occurrences (lit ''NO'') (QRPaymentStarted.ip d)"
proof -
  have yes: "lit ''YES'' \<noteq> []" and no: "lit ''NO'' \<noteq> []"
    by (simp_all add: lit_def)
  show ?thesis
    unfolding qr_yes_count [of d] qr_no_count [of d]
    by (simp add: absent_means_zero [OF yes] absent_means_zero [OF no])
qed

theorem special_label_once_witness:
  "is_special qr_example
   \<and> \<not> sublist (lit ''YES'') (QRPaymentStarted.username qr_example)
   \<and> \<not> sublist (lit ''YES'') (QRPaymentStarted.mobile qr_example)
   \<and> \<not> sublist (lit ''YES'') (QRPaymentStarted.package qr_example)
   \<and> \<not> sublist (lit ''YES'') (QRPaymentStarted.amount qr_example)
   \<and> \<not> sublist (lit ''YES'') (QRPaymentStarted.ip qr_example)
   \<and> occurrences (lit ''YES'') (qr_payment_started_text qr_example) = 1
   \<and> \<not> is_special qr_blank_example
   \<and> \<not> sublist (lit ''NO'') (QRPaymentStarted.username qr_blank_example)
   \<and> \<not> sublist (lit ''NO'') (QRPaymentStarted.mobile qr_blank_example)
   \<and> \<not> sublist (lit ''NO'') (QRPaymentStarted.package qr_blank_example)
   \<and> \<not> sublist (lit ''NO'') (QRPaymentStarted.amount qr_blank_example)
   \<and> \<not> sublist (lit ''NO'') (QRPaymentStarted.ip qr_blank_example)
   \<and> occurrences (lit ''NO'') (qr_payment_started_text qr_blank_example) = 1"
proof -
  have special: "is_special qr_example"
    "\<not> sublist (lit ''YES'') (QRPaymentStarted.username qr_example)"
    "\<not> sublist (lit ''YES'') (QRPaymentStarted.mobile qr_example)"
    "\<not> sublist (lit ''YES'') (QRPaymentStarted.package qr_example)"
    "\<not> sublist (lit ''YES'') (QRPaymentStarted.amount qr_example)"
    "\<not> sublist (lit ''YES'') (QRPaymentStarted.ip qr_example)"
    by (simp_all add: qr_example_def lit_def sublist_Cons_right)
  have plain: "\<not> is_special qr_blank_example"
    "\<not> sublist (lit ''NO'') (QRPaymentStarted.username qr_blank_example)"
    "\<not> sublist (lit ''NO'') (QRPaymentStarted.mobile qr_blank_example)"
    "\<not> sublist (lit ''NO'') (QRPaymentStarted.package qr_blank_example)"
    "\<not> sublist (lit ''NO'') (QRPaymentStarted.amount qr_blank_example)"
    "\<not> sublist (lit ''NO'') (QRPaymentStarted.ip qr_blank_example)"
    by (simp_all add: qr_blank_example_def lit_def sublist_Cons_right)
  from special plain special_label_once [of qr_example] special_label_once [of qr_blank_example]
  show ?thesis
    by blast
qed

text \<open>
  Claim C6 as stated fails: a user called \<^verbatim>\<open>YES\<close> with \<^verbatim>\<open>is_special\<close> true gives a text with
  two occurrences of \<^verbatim>\<open>YES\<close>, and a user called \<^verbatim>\<open>NOAH\<close> with \<^verbatim>\<open>is_special\<close> false one with
  two occurrences of \<^verbatim>\<open>NO\<close>.
\<close>

theorem label_occurs_twice:
  "is_special qr_yes_example
   \<and> occurrences (lit ''YES'') (qr_payment_started_text qr_yes_example) = 2
   \<and> \<not> is_special qr_noah_example
   \<and> occurrences (lit ''NO'') (qr_payment_started_text qr_noah_example) = 2"
  by (simp add: qr_yes_example_def qr_noah_example_def qr_payment_started_text_def
      special_text_def or_else_def lit_def glyph_defs)

text \<open>
  Claim C9. For bodies built from the same six values, the payment-started and the
  payment-time-ended endpoints call the notifier with the same bot token, the same chat
  id and the rendering mode \<^verbatim>\<open>HTML\<close>, and with texts that agree from the end of their
  first line on; the first lines are the two headers.
\<close>

theorem payment_texts_differ_in_header_only:
  fixes cfg :: config and u m p a i t :: pystr
  defines "started \<equiv> payment_started_call cfg
    \<lparr>PaymentStarted.username = u, mobile = m, package = p, amount = a, ip = i, method = t\<rparr>"
  defines "ended \<equiv> payment_time_ended_call cfg
    \<lparr>PaymentTimeEnded.username = u, mobile = m, package = p, amount = a, ip = i, method = t\<rparr>"
  shows
  "after_first_line (message started) = after_first_line (message ended)
   \<and> first_line (message started)
       = emoji_card @ lit '' <b>New UPI PAYMENT STARTED '' @ emoji_party @ lit ''</b>''
   \<and> first_line (message ended) = emoji_warning @ lit '' <b>PAYMENT TIME ENDED</b>''
   \<and> message started = first_line (message started) @ after_first_line (message started)
   \<and> message ended = first_line (message ended) @ after_first_line (message ended)
   \<and> bot_token started = bot_token ended
   \<and> chat_id started = chat_id ended
   \<and> parse_mode started = lit ''HTML''
   \<and> parse_mode ended = lit ''HTML''"
proof -
  have rest: "after_first_line (message started) = after_first_line (message ended)"
    by (simp add: started_def ended_def call_defs text_defs after_first_line_def lit_def
        glyph_defs)
  have heads:
    "first_line (message started)
       = emoji_card @ lit '' <b>New UPI PAYMENT STARTED '' @ emoji_party @ lit ''</b>''"
    "first_line (message ended) = emoji_warning @ lit '' <b>PAYMENT TIME ENDED</b>''"
    by (simp_all add: started_def ended_def call_defs text_defs first_line_def lit_def
        glyph_defs)
  have whole: "s = first_line s @ after_first_line s" for s
    by (simp add: first_line_def after_first_line_def)
  have args: "bot_token started = bot_token ended" "chat_id started = chat_id ended"
    "parse_mode started = lit ''HTML''" "parse_mode ended = lit ''HTML''"
    by (simp_all add: started_def ended_def call_defs)
  from rest heads args whole [of "message started"] whole [of "message ended"]
  show ?thesis
    by (intro conjI)
qed

text \<open>How often the two placeholders occur in the new-user text: as often as in its fields.\<close>

lemma new_user_not_provided_count:
  "occurrences (lit ''Not Provided'') (new_user_text d) =
     occurrences (lit ''Not Provided'') (NewUserNotification.username d) +
     occurrences (lit ''Not Provided'') (NewUserNotification.mobile d) +
     occurrences (lit ''Not Provided'') (NewUserNotification.ip d) +
     occurrences (lit ''Not Provided'') (profile_status d)"
  by (simp add: new_user_text_def lit_def glyph_defs occurrences_sep)

lemma new_user_unknown_count:
  "occurrences (lit ''Unknown'') (new_user_text d) =
     occurrences (lit ''Unknown'') (NewUserNotification.username d) +
     occurrences (lit ''Unknown'') (NewUserNotification.mobile d) +
     occurrences (lit ''Unknown'') (NewUserNotification.ip d) +
     occurrences (lit ''Unknown'') (profile_status d)"
  by (simp add: new_user_text_def lit_def glyph_defs occurrences_sep)

text \<open>
  Claim C10. The new-user endpoint has no placeholder. With an empty \<^verbatim>\<open>mobile\<close> the line
  of the text is the label \<^verbatim>\<open>Mobile: \<close> and then the line feed, and likewise for an empty
  \<^verbatim>\<open>username\<close>; the template contributes no \<^verbatim>\<open>Not Provided\<close> and no \<^verbatim>\<open>Unknown\<close>, which occur
  in the text only as often as the fields contain them. Each of the other four endpoints
  puts \<^verbatim>\<open>Not Provided\<close> into the mobile slot of a body whose \<^verbatim>\<open>mobile\<close> is empty, and the
  QR endpoint \<^verbatim>\<open>Unknown\<close> into the slot of an empty \<^verbatim>\<open>username\<close>.
\<close>

theorem new_user_has_no_placeholder:
  fixes u m i s p a t :: pystr
  shows
  "new_user_text \<lparr>NewUserNotification.username = u, mobile = [], ip = i, profile_status = s\<rparr> =
     emoji_bell @ lit '' New User Submitted'' @ nl @
     emoji_bust @ lit '' Username: '' @ u @ nl @
     emoji_phone @ lit '' Mobile: '' @ nl @
     emoji_globe @ lit '' IP: '' @ i @ nl @
     emoji_chart @ lit '' Status: '' @ s
   \<and> new_user_text \<lparr>NewUserNotification.username = [], mobile = m, ip = i, profile_status = s\<rparr> =
     emoji_bell @ lit '' New User Submitted'' @ nl @
     emoji_bust @ lit '' Username: '' @ nl @
     emoji_phone @ lit '' Mobile: '' @ m @ nl @
     emoji_globe @ lit '' IP: '' @ i @ nl @
     emoji_chart @ lit '' Status: '' @ s
   \<and> occurrences (lit ''Not Provided'') (new_user_text d) =
     occurrences (lit ''Not Provided'') (NewUserNotification.username d) +
     occurrences (lit ''Not Provided'') (NewUserNotification.mobile d) +
     occurrences (lit ''Not Provided'') (NewUserNotification.ip d) +
     occurrences (lit ''Not Provided'') (profile_status d)
   \<and> occurrences (lit ''Unknown'') (new_user_text d) =
     occurrences (lit ''Unknown'') (NewUserNotification.username d) +
     occurrences (lit ''Unknown'') (NewUserNotification.mobile d) +
     occurrences (lit ''Unknown'') (NewUserNotification.ip d) +
     occurrences (lit ''Unknown'') (profile_status d)
   \<and> sublist (emoji_phone @ lit '' Mobile: <code>Not Provided</code>'')
       (qr_payment_started_text \<lparr>QRPaymentStarted.username = u, mobile = [], package = p,
          amount = a, ip = i, is_special = b\<rparr>)
   \<and> sublist (emoji_phone @ lit '' Mobile: <code>Not Provided</code>'')
       (payment_started_text \<lparr>PaymentStarted.username = u, mobile = [], package = p,
          amount = a, ip = i, method = t\<rparr>)
   \<and> sublist (emoji_phone @ lit '' Mobile: <code>Not Provided</code>'')
       (payment_time_ended_text \<lparr>PaymentTimeEnded.username = u, mobile = [], package = p,
          amount = a, ip = i, method = t\<rparr>)
   \<and> sublist (emoji_phone @ lit '' Mobile: <code>Not Provided</code>'')
       (order_text \<lparr>OrderNotification.username = u, mobile = [], package = p, price = n,
          ip = i\<rparr>)
   \<and> sublist (emoji_bust @ lit '' Username: <code>Unknown</code>'')
       (qr_payment_started_text \<lparr>QRPaymentStarted.username = [], mobile = m, package = p,
          amount = a, ip = i, is_special = b\<rparr>)"
proof -
  have slots:
    "new_user_text \<lparr>NewUserNotification.username = u, mobile = [], ip = i, profile_status = s\<rparr> =
       emoji_bell @ lit '' New User Submitted'' @ nl @
       emoji_bust @ lit '' Username: '' @ u @ nl @
       emoji_phone @ lit '' Mobile: '' @ nl @
       emoji_globe @ lit '' IP: '' @ i @ nl @
       emoji_chart @ lit '' Status: '' @ s"
    "new_user_text \<lparr>NewUserNotification.username = [], mobile = m, ip = i, profile_status = s\<rparr> =
       emoji_bell @ lit '' New User Submitted'' @ nl @
       emoji_bust @ lit '' Username: '' @ nl @
       emoji_phone @ lit '' Mobile: '' @ m @ nl @
       emoji_globe @ lit '' IP: '' @ i @ nl @
       emoji_chart @ lit '' Status: '' @ s"
    by (simp_all add: new_user_text_def)
  have others:
    "sublist (emoji_phone @ lit '' Mobile: <code>Not Provided</code>'')
       (qr_payment_started_text \<lparr>QRPaymentStarted.username = u, mobile = [], package = p,
          amount = a, ip = i, is_special = b\<rparr>)"
    "sublist (emoji_phone @ lit '' Mobile: <code>Not Provided</code>'')
       (payment_started_text \<lparr>PaymentStarted.username = u, mobile = [], package = p,
          amount = a, ip = i, method = t\<rparr>)"
    "sublist (emoji_phone @ lit '' Mobile: <code>Not Provided</code>'')
       (payment_time_ended_text \<lparr>PaymentTimeEnded.username = u, mobile = [], package = p,
          amount = a, ip = i, method = t\<rparr>)"
    "sublist (emoji_phone @ lit '' Mobile: <code>Not Provided</code>'')
       (order_text \<lparr>OrderNotification.username = u, mobile = [], package = p, price = n,
          ip = i\<rparr>)"
    "sublist (emoji_bust @ lit '' Username: <code>Unknown</code>'')
       (qr_payment_started_text \<lparr>QRPaymentStarted.username = [], mobile = m, package = p,
          amount = a, ip = i, is_special = b\<rparr>)"
    by (simp_all add: qr_username_fallback qr_mobile_fallback payment_started_mobile_fallback
        payment_time_ended_mobile_fallback order_mobile_fallback)
  from slots others new_user_not_provided_count [of d] new_user_unknown_count [of d]
  show ?thesis
    by (intro conjI)
qed

end
